theory Spec2Isabelle
  imports Main
begin

section \<open>Exceptions\<close>

text \<open>
  Every exception the tag library raises itself is a \<open>template.TemplateSyntaxError\<close>
  carrying a message.  The other constructors are the exceptions of the Python
  runtime and of the host engine that the modelled code can run into:
  a missing dictionary key, a missing attribute, a malformed format string, popping the
  last layer of a context stack, and any failure inside a host collaborator
  (template loader, expression resolution, node rendering).
\<close>

datatype error =
    TemplateSyntaxError string
  | KeyError string
  | AttributeError string
  | ValueError string
  | ContextPopException
  | HostError string

section \<open>Strings\<close>

text \<open>
  \<open>s.split(sep, 1)\<close> for a one-character separator: the text before the first
  occurrence of the separator and everything after it, or the string alone when the
  separator does not occur.
\<close>

definition str_split1 :: "char \<Rightarrow> string \<Rightarrow> string list" where
  "str_split1 sep s =
     (case dropWhile (\<lambda>c. c \<noteq> sep) s of
        [] \<Rightarrow> [s]
      | _ # rest \<Rightarrow> [takeWhile (\<lambda>c. c \<noteq> sep) s, rest])"

text \<open>
  \<open>fmt.format(**info)\<close> for the format strings the library uses: literal text and
  replacement fields \<open>{key}\<close>.  A key that is not in \<open>info\<close> is a \<open>KeyError\<close>, an
  unmatched brace a \<open>ValueError\<close>.
\<close>

function str_format :: "string \<Rightarrow> (string \<rightharpoonup> string) \<Rightarrow> error + string" where
  "str_format [] info = Inr []"
| "str_format (c # cs) info =
     (if c = CHR ''{'' then
        (case dropWhile (\<lambda>d. d \<noteq> CHR ''}'') cs of
           [] \<Rightarrow> Inl (ValueError ''expected } before end of string'')
         | _ # rest \<Rightarrow>
             (case info (takeWhile (\<lambda>d. d \<noteq> CHR ''}'') cs) of
                None \<Rightarrow> Inl (KeyError (takeWhile (\<lambda>d. d \<noteq> CHR ''}'') cs))
              | Some v \<Rightarrow>
                  (case str_format rest info of
                     Inl e \<Rightarrow> Inl e
                   | Inr r \<Rightarrow> Inr (v @ r))))
      else if c = CHR ''}'' then Inl (ValueError ''Single } encountered in format string'')
      else (case str_format cs info of
              Inl e \<Rightarrow> Inl e
            | Inr r \<Rightarrow> Inr (c # r)))"
  by pat_completeness auto

termination str_format
proof (relation "measure (\<lambda>(s, info). length s)")
  show "wf (measure (\<lambda>(s, info::string \<rightharpoonup> string). length s))" by simp
next
  fix c :: char and cs info x21 and x22 :: string
  assume "dropWhile (\<lambda>d. d \<noteq> CHR ''}'') cs = x21 # x22"
  with length_dropWhile_le [of "\<lambda>d. d \<noteq> CHR ''}''" cs]
  show "((x22, info), (c # cs, info)) \<in> measure (\<lambda>(s, info::string \<rightharpoonup> string). length s)"
    by simp
next
  fix c :: char and cs and info :: "string \<rightharpoonup> string"
  show "((cs, info), (c # cs, info)) \<in> measure (\<lambda>(s, info). length s)" by simp
qed

text \<open>A list comprehension whose element expression may raise stops at the first exception.\<close>

fun collect :: "(error + 'a) list \<Rightarrow> error + 'a list" where
  "collect [] = Inr []"
| "collect (x # xs) =
     (case x of
        Inl e \<Rightarrow> Inl e
      | Inr v \<Rightarrow> (case collect xs of Inl e \<Rightarrow> Inl e | Inr vs \<Rightarrow> Inr (v # vs)))"

section \<open>Widget references\<close>

definition parse_widget_name :: "string \<Rightarrow> error + string \<times> string" where
  \<open>parse_widget_name widget =
     (case str_split1 CHR '':'' widget of
        [alias, block_name] \<Rightarrow> Inr (alias, block_name)
      | _ \<Rightarrow> Inl (TemplateSyntaxError
                 (''widget name must be "alias:block_name" - '' @ widget)))\<close>

section \<open>Automatic widget names\<close>

text \<open>
  What \<open>auto_widget\<close> reads from a bound form field: the class name of the field's
  widget, the class name of the field, and the field's name.
\<close>

record BoundField =
  widget_class_name :: string
  field_class_name :: string
  field_name :: string

definition auto_widget :: "BoundField \<Rightarrow> error + string list" where
  "auto_widget field =
     (let info = [''widget'' \<mapsto> widget_class_name field,
                  ''field'' \<mapsto> field_class_name field,
                  ''name'' \<mapsto> field_name field]
      in collect (map (\<lambda>fmt. str_format fmt info)
           [''{field}_{widget}_{name}'',
            ''{field}_{name}'',
            ''{widget}_{name}'',
            ''{field}_{widget}'',
            ''{name}'',
            ''{widget}'',
            ''{field}'']))"

section \<open>Host engine: blocks, templates and contexts\<close>

text \<open>
  Modelled from the spec: the host template engine (Django) is not part of the
  repository.  What the tag library uses of it is modelled here after the spec's
  collaborator interface: a block node with a name and an opaque body, a block registry
  (\<open>BlockContext\<close>) with \<open>add_blocks\<close> and \<open>get_block\<close>, a loaded template with its
  block nodes and its extends nodes, and a context with two stacks of dictionaries that
  are pushed and popped.
\<close>

datatype 'n BlockNode = BlockNode (name: string) (block_nodelist: 'n)

text \<open>
  Modelled from the spec: \<open>BlockContext.blocks\<close> is a \<open>defaultdict(list)\<close>: every name
  has a list, the empty one unless blocks were added.  \<open>add_blocks\<close> inserts each block
  at the front of the list of its name, \<open>get_block\<close> returns the last element of the
  list, or \<open>None\<close> for the empty list.  So the block added first wins.
\<close>

type_synonym 'n BlockContext = "string \<Rightarrow> 'n BlockNode list"

definition BlockContext_new :: "'n BlockContext" where
  "BlockContext_new = (\<lambda>nm. [])"

definition add_blocks :: "'n BlockContext \<Rightarrow> (string \<rightharpoonup> 'n BlockNode) \<Rightarrow> 'n BlockContext" where
  "add_blocks self blocks =
     (\<lambda>nm. case blocks nm of None \<Rightarrow> self nm | Some block \<Rightarrow> block # self nm)"

definition get_block :: "'n BlockContext \<Rightarrow> string \<Rightarrow> 'n BlockNode option" where
  "get_block self nm = (case self nm of [] \<Rightarrow> None | b # bs \<Rightarrow> Some (last (b # bs)))"

text \<open>
  Modelled from the spec: a loaded template exposes the block nodes of its node list, in
  document order, and its extends nodes.  Each extends node is represented by what its
  \<open>get_parent(context)\<close> gives: the parent template, or the loader's exception.
\<close>

datatype 'n Template =
  Template (block_nodes: "'n BlockNode list") (extends_nodes: "(error + 'n Template) list")

text \<open>The argument of \<open>resolve_blocks\<close> is a template name or a template object.\<close>

datatype 'n TemplateArg = TemplateName string | TemplateObject "'n Template"

text \<open>
  Modelled from the spec: a stack of dictionaries is never empty (the engine creates it
  with one layer and \<open>pop\<close> refuses to remove the last one), so it is a current layer
  and the list of the layers under it, the nearest first.
\<close>

datatype 'a stack = Stack (current: 'a) (outer: "'a list")

definition push :: "'a \<Rightarrow> 'a stack \<Rightarrow> 'a stack" where
  "push layer s = Stack layer (current s # outer s)"

definition pop :: "'a stack \<Rightarrow> error + 'a stack" where
  "pop s = (case outer s of [] \<Rightarrow> Inl ContextPopException | l # ls \<Rightarrow> Inr (Stack l ls))"

text \<open>
  Modelled from the spec: the render context is the host's; it reads and writes its
  current layer only (a key set in a layer underneath is missing in the current one).
  A layer holds the two entries the library uses: the active block registry under
  \<open>BLOCK_CONTEXT_KEY\<close> and the widget library table under \<open>WIDGET_CONTEXT_KEY\<close>;
  \<open>None\<close> is a missing key.  Dictionaries and registries are values here: storing one
  under a second key copies it.  The library's one in-place update of a table
  dictionary, the store in the loop of \<open>load_widgets\<close>, is never reached (see there), so
  a copied table and a shared one hold the same entries at all times.
\<close>

record 'n RenderLayer =
  block_context :: "'n BlockContext option"
  widgets :: "(string \<rightharpoonup> 'n BlockContext) option"

text \<open>
  Modelled from the spec: \<open>BLOCK_CONTEXT_KEY\<close> is imported from the host engine;
  \<open>WIDGET_CONTEXT_KEY\<close> is the library's own.
\<close>

definition BLOCK_CONTEXT_KEY :: string where
  "BLOCK_CONTEXT_KEY = ''block_context''"

definition WIDGET_CONTEXT_KEY :: string where
  "WIDGET_CONTEXT_KEY = ''_widgets_''"

text \<open>
  Modelled from the spec: a template variable holds a rendered string or some other
  object; the context has the stack of variable layers and the render context.
\<close>

datatype 'o pyval = Str string | Obj 'o

record ('n, 'o) Context =
  dicts :: "(string \<rightharpoonup> 'o pyval) stack"
  render_context :: "'n RenderLayer stack"

definition empty_layer :: "'n RenderLayer" where
  "empty_layer = \<lparr>block_context = None, widgets = None\<rparr>"

definition rc_get_blocks :: "('n, 'o) Context \<Rightarrow> 'n BlockContext option" where
  "rc_get_blocks context = block_context (current (render_context context))"

definition rc_get_widgets :: "('n, 'o) Context \<Rightarrow> (string \<rightharpoonup> 'n BlockContext) option" where
  "rc_get_widgets context = widgets (current (render_context context))"

definition rc_set_blocks :: "'n BlockContext \<Rightarrow> ('n, 'o) Context \<Rightarrow> ('n, 'o) Context" where
  "rc_set_blocks b context =
     context\<lparr>render_context :=
       Stack ((current (render_context context))\<lparr>block_context := Some b\<rparr>)
             (outer (render_context context))\<rparr>"

definition rc_set_widgets ::
  "(string \<rightharpoonup> 'n BlockContext) \<Rightarrow> ('n, 'o) Context \<Rightarrow> ('n, 'o) Context" where
  "rc_set_widgets w context =
     context\<lparr>render_context :=
       Stack ((current (render_context context))\<lparr>widgets := Some w\<rparr>)
             (outer (render_context context))\<rparr>"

definition rc_push :: "'n RenderLayer \<Rightarrow> ('n, 'o) Context \<Rightarrow> ('n, 'o) Context" where
  "rc_push layer context = context\<lparr>render_context := push layer (render_context context)\<rparr>"

definition rc_pop :: "('n, 'o) Context \<Rightarrow> error + ('n, 'o) Context" where
  "rc_pop context =
     (case pop (render_context context) of
        Inl e \<Rightarrow> Inl e
      | Inr s \<Rightarrow> Inr (context\<lparr>render_context := s\<rparr>))"

text \<open>
  Modelled from the spec: the render context offers \<open>push\<close> and \<open>pop\<close> and has no
  method \<open>update\<close>; only the variable context has one.  The attribute lookup
  \<open>context.render_context.update\<close> raises \<open>AttributeError\<close>, before the argument of the
  call is evaluated and before any layer is pushed.
\<close>

definition rc_update :: "('n, 'o) Context \<Rightarrow> error" where
  "rc_update context = AttributeError ''update''"

text \<open>
  Modelled from the spec: the variable stack of the host's context.
  \<open>context[key] = value\<close> writes into the current layer, \<open>context[key]\<close> reads the
  nearest layer that has the key, and \<open>with context.update(d): body\<close> pushes \<open>d\<close> as a
  layer, runs the body and pops on exit, also when the body raises.
\<close>

definition ctx_set :: "string \<Rightarrow> 'o pyval \<Rightarrow> ('n, 'o) Context \<Rightarrow> ('n, 'o) Context" where
  "ctx_set key v context =
     context\<lparr>dicts := Stack ((current (dicts context))(key \<mapsto> v)) (outer (dicts context))\<rparr>"

fun lookup_layers :: "(string \<rightharpoonup> 'o pyval) list \<Rightarrow> string \<Rightarrow> 'o pyval option" where
  "lookup_layers [] key = None"
| "lookup_layers (d # ds) key = (case d key of Some v \<Rightarrow> Some v | None \<Rightarrow> lookup_layers ds key)"

definition ctx_get :: "('n, 'o) Context \<Rightarrow> string \<Rightarrow> 'o pyval option" where
  "ctx_get context key = lookup_layers (current (dicts context) # outer (dicts context)) key"

definition with_update ::
  "(string \<rightharpoonup> 'o pyval) \<Rightarrow> (('n, 'o) Context \<Rightarrow> (error + 'a) \<times> ('n, 'o) Context) \<Rightarrow>
   ('n, 'o) Context \<Rightarrow> (error + 'a) \<times> ('n, 'o) Context" where
  "with_update d body context =
     (case body (context\<lparr>dicts := push d (dicts context)\<rparr>) of
        (r, c) \<Rightarrow>
          (case pop (dicts c) of
             Inl e \<Rightarrow> (Inl e, c)
           | Inr s \<Rightarrow> (r, c\<lparr>dicts := s\<rparr>)))"

section \<open>Resolving the blocks of a template\<close>

text \<open>
  \<open>dict((block.name, block) for block in ...)\<close>: a later block node of the same name
  replaces an earlier one.
\<close>

definition local_blocks :: "'n Template \<Rightarrow> (string \<rightharpoonup> 'n BlockNode)" where
  "local_blocks template = map_of (rev (map (\<lambda>block. (name block, block)) (block_nodes template)))"

text \<open>
  The registry is the one of the current render-context layer, created there if the key
  is missing.
\<close>

definition ensure_blocks :: "('n, 'o) Context \<Rightarrow> 'n BlockContext \<times> ('n, 'o) Context" where
  "ensure_blocks context =
     (case rc_get_blocks context of
        Some blocks \<Rightarrow> (blocks, context)
      | None \<Rightarrow> (BlockContext_new, rc_set_blocks BlockContext_new context))"

text \<open>
  \<open>resolve_blocks\<close> on a template object.  The registry is one object that every level
  of the recursion updates in place; as a value, what the function returns is the
  registry as the recursive call leaves it.
\<close>

fun resolve_blocks_template ::
  "'n Template \<Rightarrow> ('n, 'o) Context \<Rightarrow> (error + 'n BlockContext) \<times> ('n, 'o) Context" where
  "resolve_blocks_template (Template nodes extends) context =
     (case ensure_blocks context of
        (blocks, c1) \<Rightarrow>
          (let blocks' = add_blocks blocks (local_blocks (Template nodes extends));
               c2 = rc_set_blocks blocks' c1
           in case extends of
                [] \<Rightarrow> (Inr blocks', c2)
              | Inl e # _ \<Rightarrow> (Inl e, c2)
              | Inr parent_template # _ \<Rightarrow>
                  (case resolve_blocks_template parent_template c2 of
                     (Inl e, c3) \<Rightarrow> (Inl e, c3)
                   | (Inr blocks'', c3) \<Rightarrow> (Inr blocks'', c3))))"

text \<open>
  \<open>resolve_blocks\<close>: a name is loaded through \<open>get_template\<close> first, after the registry
  has been looked up or created.
\<close>

definition resolve_blocks ::
  "(string \<Rightarrow> error + 'n Template) \<Rightarrow> 'n TemplateArg \<Rightarrow> ('n, 'o) Context \<Rightarrow>
   (error + 'n BlockContext) \<times> ('n, 'o) Context" where
  "resolve_blocks get_template template context =
     (case ensure_blocks context of
        (blocks, c1) \<Rightarrow>
          (case (case template of
                   TemplateName nm \<Rightarrow> get_template nm
                 | TemplateObject t \<Rightarrow> Inr t) of
             Inl e \<Rightarrow> (Inl e, c1)
           | Inr t \<Rightarrow> resolve_blocks_template t c1))"

section \<open>Activating a widget library\<close>

text \<open>
  Modelled from the spec: \<open>'%r' % x\<close> formats with Python's \<open>repr\<close>.  The \<open>repr\<close> of a string depends on
  the Python version, so it is a parameter; the \<open>repr\<close> of a tuple is built from it.
\<close>

fun join :: "string \<Rightarrow> string list \<Rightarrow> string" where
  "join sep [] = []"
| "join sep [x] = x"
| "join sep (x # y # ys) = x @ sep @ join sep (y # ys)"

definition repr_tuple :: "(string \<Rightarrow> string) \<Rightarrow> string list \<Rightarrow> string" where
  "repr_tuple repr names =
     ''('' @ join '', '' (map repr names) @ (if length names = 1 then '','' else []) @ '')''"

text \<open>
  \<open>using_cm\<close> is the source's \<open>using\<close>, a generator-based context manager without \<open>try\<close>/\<open>finally\<close>:
  \<open>with using(context, alias): body\<close> runs the generator up to its \<open>yield\<close>, runs
  the body, and resumes the generator after the \<open>yield\<close> only when the body finished
  normally.  When the body raises, the exception is thrown into the generator at the
  \<open>yield\<close> and leaves it there, so the statement after the \<open>yield\<close> is not run.
\<close>

definition using_cm ::
  "(string \<Rightarrow> string) \<Rightarrow> ('n, 'o) Context \<Rightarrow> string \<Rightarrow>
   (('n, 'o) Context \<Rightarrow> (error + 'a) \<times> ('n, 'o) Context) \<Rightarrow>
   (error + 'a) \<times> ('n, 'o) Context" where
  "using_cm repr context alias body =
     (if alias = [] then body context
      else
        (case rc_get_widgets context of
           None \<Rightarrow> (Inl (TemplateSyntaxError ''No widget libraries loaded!''), context)
         | Some ws \<Rightarrow>
             (case ws alias of
                None \<Rightarrow>
                  (Inl (TemplateSyntaxError
                          (''No widget library loaded for alias: '' @ repr alias)), context)
              | Some block_set \<Rightarrow>
                  (case body (rc_set_widgets ws
                               (rc_set_blocks block_set (rc_push empty_layer context))) of
                     (Inl e, c) \<Rightarrow> (Inl e, c)
                   | (Inr r, c) \<Rightarrow>
                       (case rc_pop c of
                          Inl e \<Rightarrow> (Inl e, c)
                        | Inr c' \<Rightarrow> (Inr r, c'))))))"

section \<open>Finding a block\<close>

fun find_block_loop :: "'n BlockContext \<Rightarrow> string list \<Rightarrow> 'n BlockNode option" where
  "find_block_loop block_set [] = None"
| "find_block_loop block_set (nm # names) =
     (case get_block block_set nm of
        Some block \<Rightarrow> Some block
      | None \<Rightarrow> find_block_loop block_set names)"

definition find_block ::
  "(string \<Rightarrow> string) \<Rightarrow> ('n, 'o) Context \<Rightarrow> string list \<Rightarrow> error + 'n BlockNode" where
  "find_block repr context names =
     (case rc_get_blocks context of
        None \<Rightarrow> Inl (KeyError BLOCK_CONTEXT_KEY)
      | Some block_set \<Rightarrow>
          (case find_block_loop block_set names of
             Some block \<Rightarrow> Inr block
           | None \<Rightarrow>
               Inl (TemplateSyntaxError (''No widget found for: '' @ repr_tuple repr names))))"

section \<open>Loading widget libraries\<close>

text \<open>
  The loop of \<open>load_widgets\<close> over the keyword arguments; \<open>ws\<close> is the table dictionary.
  A pair whose alias is in the table is skipped when \<open>soft\<close> is set.  For any other pair
  the statement \<open>with context.render_context.update({...}):\<close> evaluates its context
  expression first, and the attribute lookup raises: the body of the statement (the call
  of \<open>resolve_blocks\<close> and the store \<open>widgets[alias] = blocks\<close>) is not entered, nothing
  is pushed, and the exception leaves the loop.
\<close>

fun load_widgets_loop ::
  "bool \<Rightarrow> (string \<times> 'n TemplateArg) list \<Rightarrow> (string \<rightharpoonup> 'n BlockContext) \<Rightarrow>
   ('n, 'o) Context \<Rightarrow> (error + unit) \<times> ('n, 'o) Context" where
  "load_widgets_loop soft [] ws context = (Inr (), context)"
| "load_widgets_loop soft ((alias, template_name) # kwargs) ws context =
     (if soft \<and> ws alias \<noteq> None then load_widgets_loop soft kwargs ws context
      else (Inl (rc_update context), context))"

text \<open>
  \<open>load_widgets(context, **kwargs)\<close>; the flag popped from the keyword arguments under
  \<open>_soft\<close> (default \<open>False\<close>) is the parameter \<open>soft\<close>, the remaining keyword arguments
  are \<open>kwargs\<close>.  The table is looked up in the current render-context layer, and an
  empty one is stored there when the key is missing, before the loop runs.
\<close>

definition load_widgets ::
  "('n, 'o) Context \<Rightarrow> bool \<Rightarrow> (string \<times> 'n TemplateArg) list \<Rightarrow>
   (error + string) \<times> ('n, 'o) Context" where
  "load_widgets context soft kwargs =
     (case (case rc_get_widgets context of
              Some ws \<Rightarrow> (ws, context)
            | None \<Rightarrow> (Map.empty, rc_set_widgets Map.empty context)) of
        (ws, c1) \<Rightarrow>
          (case load_widgets_loop soft kwargs ws c1 of
             (Inl e, c2) \<Rightarrow> (Inl e, c2)
           | (Inr u, c2) \<Rightarrow> (Inr [], c2)))"

section \<open>Rendering widgets\<close>

text \<open>
  The keyword arguments of a tag are expressions; each is resolved in the context, and
  the first exception stops the dictionary comprehension.
\<close>

fun resolve_kwargs ::
  "(string \<times> (('n, 'o) Context \<Rightarrow> error + 'o pyval)) list \<Rightarrow> ('n, 'o) Context \<Rightarrow>
   (string \<rightharpoonup> 'o pyval) \<Rightarrow> error + (string \<rightharpoonup> 'o pyval)" where
  "resolve_kwargs [] context acc = Inr acc"
| "resolve_kwargs ((key, val) # rest) context acc =
     (case val context of
        Inl e \<Rightarrow> Inl e
      | Inr v \<Rightarrow> resolve_kwargs rest context (acc(key \<mapsto> v)))"

text \<open>
  \<open>if self.asvar: context[self.asvar] = result; return ''\<close>, else \<open>return result\<close>.
  \<open>None\<close> and the empty string are false.
\<close>

definition store_asvar ::
  "string option \<Rightarrow> string \<Rightarrow> ('n, 'o) Context \<Rightarrow> (error + string) \<times> ('n, 'o) Context" where
  "store_asvar asvar result context =
     (case asvar of
        None \<Rightarrow> (Inr result, context)
      | Some v \<Rightarrow>
          (if v = [] then (Inr result, context) else (Inr [], ctx_set v (Str result) context)))"

record ('n, 'o) Widget =
  widget :: "('n, 'o) Context \<Rightarrow> error + string"
  kwargs :: "(string \<times> (('n, 'o) Context \<Rightarrow> error + 'o pyval)) list"
  asvar :: "string option"

record ('n, 'o) NestedWidget = "('n, 'o) Widget" +
  nodelist :: "('n, 'o) Context \<Rightarrow> (error + string) \<times> ('n, 'o) Context"

text \<open>
  \<open>render\<close> is the host's \<open>block.render(context)\<close>: it returns the rendered string or
  raises, and may change the context.
\<close>

text \<open>The body of the \<open>with using(context, alias)\<close> statement of \<open>Widget.render\<close>.\<close>

definition Widget_body ::
  "(string \<Rightarrow> string) \<Rightarrow>
   ('n BlockNode \<Rightarrow> ('n, 'o) Context \<Rightarrow> (error + string) \<times> ('n, 'o) Context) \<Rightarrow>
   ('n, 'o, 'z) Widget_scheme \<Rightarrow> string \<Rightarrow> ('n, 'o) Context \<Rightarrow>
   (error + string) \<times> ('n, 'o) Context" where
  "Widget_body repr render self block_name context =
     (case find_block repr context [block_name] of
        Inl e \<Rightarrow> (Inl e, context)
      | Inr block \<Rightarrow>
          (case resolve_kwargs (kwargs self) context Map.empty of
             Inl e \<Rightarrow> (Inl e, context)
           | Inr kw \<Rightarrow>
               (case with_update kw (render block) context of
                  (Inl e, c) \<Rightarrow> (Inl e, c)
                | (Inr result, c) \<Rightarrow> store_asvar (asvar self) result c)))"

definition Widget_render ::
  "(string \<Rightarrow> string) \<Rightarrow>
   ('n BlockNode \<Rightarrow> ('n, 'o) Context \<Rightarrow> (error + string) \<times> ('n, 'o) Context) \<Rightarrow>
   ('n, 'o, 'z) Widget_scheme \<Rightarrow> ('n, 'o) Context \<Rightarrow> (error + string) \<times> ('n, 'o) Context" where
  "Widget_render repr render self context =
     (case widget self context of
        Inl e \<Rightarrow> (Inl e, context)
      | Inr w \<Rightarrow>
          (case parse_widget_name w of
             Inl e \<Rightarrow> (Inl e, context)
           | Inr (alias, block_name) \<Rightarrow>
               using_cm repr context alias (Widget_body repr render self block_name)))"

text \<open>The body of the \<open>with using(context, alias)\<close> statement of \<open>NestedWidget.render\<close>.\<close>

definition NestedWidget_body ::
  "(string \<Rightarrow> string) \<Rightarrow>
   ('n BlockNode \<Rightarrow> ('n, 'o) Context \<Rightarrow> (error + string) \<times> ('n, 'o) Context) \<Rightarrow>
   ('n, 'o) NestedWidget \<Rightarrow> string \<Rightarrow> ('n, 'o) Context \<Rightarrow>
   (error + string) \<times> ('n, 'o) Context" where
  "NestedWidget_body repr render self block_name context =
     (case find_block repr context [block_name] of
        Inl e \<Rightarrow> (Inl e, context)
      | Inr block \<Rightarrow>
          (case resolve_kwargs (kwargs self) context Map.empty of
             Inl e \<Rightarrow> (Inl e, context)
           | Inr kw \<Rightarrow>
               (case with_update kw (\<lambda>context.
                       case nodelist self context of
                         (Inl e, c) \<Rightarrow> (Inl e, c)
                       | (Inr content, c) \<Rightarrow>
                           with_update [''content'' \<mapsto> Str content] (render block) c)
                     context of
                  (Inl e, c) \<Rightarrow> (Inl e, c)
                | (Inr result, c) \<Rightarrow> store_asvar (asvar self) result c)))"

definition NestedWidget_render ::
  "(string \<Rightarrow> string) \<Rightarrow>
   ('n BlockNode \<Rightarrow> ('n, 'o) Context \<Rightarrow> (error + string) \<times> ('n, 'o) Context) \<Rightarrow>
   ('n, 'o) NestedWidget \<Rightarrow> ('n, 'o) Context \<Rightarrow> (error + string) \<times> ('n, 'o) Context" where
  "NestedWidget_render repr render self context =
     (case widget self context of
        Inl e \<Rightarrow> (Inl e, context)
      | Inr w \<Rightarrow>
          (case parse_widget_name w of
             Inl e \<Rightarrow> (Inl e, context)
           | Inr (alias, block_name) \<Rightarrow>
               using_cm repr context alias (NestedWidget_body repr render self block_name)))"

section \<open>Reusing a block of the current template\<close>

text \<open>\<open>block_list\<close> is one name, or a list or tuple of names.\<close>

datatype block_list_arg = OneName string | NameList "string list"

fun reuse_loop :: "'n BlockContext \<Rightarrow> string list \<Rightarrow> 'n BlockNode option" where
  "reuse_loop blocks [] = None"
| "reuse_loop blocks (nm # block_list) =
     (case get_block blocks nm of
        Some block \<Rightarrow> Some block
      | None \<Rightarrow> reuse_loop blocks block_list)"

definition reuse ::
  "('n BlockNode \<Rightarrow> ('n, 'o) Context \<Rightarrow> (error + string) \<times> ('n, 'o) Context) \<Rightarrow>
   ('n, 'o) Context \<Rightarrow> block_list_arg \<Rightarrow> (string \<rightharpoonup> 'o pyval) \<Rightarrow>
   (error + string) \<times> ('n, 'o) Context" where
  "reuse render context block_list kw =
     (let blocks = (case rc_get_blocks context of
                      Some b \<Rightarrow> b
                    | None \<Rightarrow> BlockContext_new);
          names = (case block_list of
                     NameList l \<Rightarrow> l
                   | OneName b \<Rightarrow> [b])
      in case reuse_loop blocks names of
           None \<Rightarrow> (Inr [], context)
         | Some block \<Rightarrow> with_update kw (render block) context)"

section \<open>Exception classes\<close>

text \<open>The name of the Python class of an exception, and whether a result is an exception of a class.\<close>

fun exception_class :: "error \<Rightarrow> string" where
  "exception_class (TemplateSyntaxError msg) = ''TemplateSyntaxError''"
| "exception_class (KeyError key) = ''KeyError''"
| "exception_class (AttributeError attr) = ''AttributeError''"
| "exception_class (ValueError msg) = ''ValueError''"
| "exception_class ContextPopException = ''ContextPopException''"
| "exception_class (HostError msg) = ''HostError''"

fun raises :: "string \<Rightarrow> error + 'a \<Rightarrow> bool" where
  "raises cls (Inl e) = (exception_class e = cls)"
| "raises cls (Inr v) = False"

section \<open>Reference definitions\<close>

text \<open>
  The inheritance chain of a template, as the spec describes the registry built from
  it: one layer of locally declared blocks per document, the most specific document
  first, up to the root or to the first parent that fails to load.
\<close>

fun chain_layers :: "'n Template \<Rightarrow> (string \<rightharpoonup> 'n BlockNode) list" where
  "chain_layers (Template bnodes extends) =
     local_blocks (Template bnodes extends) #
       (case extends of Inr parent_template # _ \<Rightarrow> chain_layers parent_template | _ \<Rightarrow> [])"

fun chain_error :: "'n Template \<Rightarrow> error option" where
  "chain_error (Template bnodes extends) =
     (case extends of
        [] \<Rightarrow> None
      | Inl e # _ \<Rightarrow> Some e
      | Inr parent_template # _ \<Rightarrow> chain_error parent_template)"

text \<open>The registry of the current render-context layer, or a new one when none is active.\<close>

definition active_or_new :: "('n, 'o) Context \<Rightarrow> 'n BlockContext" where
  "active_or_new context =
     (case rc_get_blocks context of Some b \<Rightarrow> b | None \<Rightarrow> BlockContext_new)"

text \<open>The names a \<open>reuse\<close> tag tries.\<close>

definition names_of :: "block_list_arg \<Rightarrow> string list" where
  "names_of block_list = (case block_list of NameList l \<Rightarrow> l | OneName b \<Rightarrow> [b])"

text \<open>The context with one more layer of variables pushed, as \<open>context.update(d)\<close> leaves it.\<close>

definition override_scope :: "(string \<rightharpoonup> 'o pyval) \<Rightarrow> ('n, 'o) Context \<Rightarrow> ('n, 'o) Context" where
  "override_scope d context = context\<lparr>dicts := push d (dicts context)\<rparr>"

section \<open>Example inputs\<close>

text \<open>
  Concrete contexts, templates, tags and host functions at which the theorems below are
  instantiated.  Block bodies are numbers, so that two blocks of the same name from
  different documents can be told apart.  \<open>repr_plain\<close> is Python 3's \<open>repr\<close> on a string
  of printable ASCII characters without quotes and backslashes.
\<close>

definition repr_plain :: "string \<Rightarrow> string" where
  "repr_plain s = [CHR 0x27] @ s @ [CHR 0x27]"

definition ctx_empty :: "(nat, unit) Context" where
  "ctx_empty = \<lparr>dicts = Stack Map.empty [], render_context = Stack empty_layer []\<rparr>"

definition ok_body :: "(nat, unit) Context \<Rightarrow> (error + string) \<times> (nat, unit) Context" where
  "ok_body c = (Inr ''ok'', c)"

definition registry_p :: "nat BlockContext" where
  "registry_p = add_blocks BlockContext_new [''boom'' \<mapsto> BlockNode ''boom'' 0]"

definition ctx_loaded :: "(nat, unit) Context" where
  "ctx_loaded =
     \<lparr>dicts = Stack Map.empty [],
      render_context = Stack \<lparr>block_context = Some BlockContext_new,
                              widgets = Some [''p'' \<mapsto> registry_p]\<rparr> []\<rparr>"

definition render_raises ::
  "nat BlockNode \<Rightarrow> (nat, unit) Context \<Rightarrow> (error + string) \<times> (nat, unit) Context" where
  "render_raises block c = (Inl (HostError ''boom''), c)"

definition widget_boom :: "(nat, unit) Widget" where
  "widget_boom = \<lparr>widget = (\<lambda>c. Inr ''p:boom''), kwargs = [], asvar = None\<rparr>"

definition registry_form :: "nat BlockContext" where
  "registry_form =
     add_blocks BlockContext_new
       [''email'' \<mapsto> BlockNode ''email'' 1, ''TextInput'' \<mapsto> BlockNode ''TextInput'' 2]"

definition ctx_form :: "(nat, unit) Context" where
  "ctx_form =
     \<lparr>dicts = Stack Map.empty [],
      render_context = Stack \<lparr>block_context = Some registry_form, widgets = None\<rparr> []\<rparr>"

definition doc_C :: "nat Template" where
  "doc_C = Template [BlockNode ''x'' 3, BlockNode ''y'' 30] []"

definition doc_B :: "nat Template" where
  "doc_B = Template [BlockNode ''z'' 2] [Inr doc_C]"

definition doc_A :: "nat Template" where
  "doc_A = Template [BlockNode ''x'' 1] [Inr doc_B]"

definition doc_X :: "nat Template" where
  "doc_X = Template [BlockNode ''x'' 10] []"

definition doc_Y :: "nat Template" where
  "doc_Y = Template [BlockNode ''x'' 20] []"

definition loader :: "string \<Rightarrow> error + nat Template" where
  "loader nm =
     (if nm = ''docX'' then Inr doc_X
      else if nm = ''docY'' then Inr doc_Y
      else Inl (HostError ''TemplateDoesNotExist''))"

definition render_title ::
  "nat BlockNode \<Rightarrow> (nat, unit) Context \<Rightarrow> (error + string) \<times> (nat, unit) Context" where
  "render_title block c =
     (Inr (name block @ '':'' @ (case ctx_get c ''title'' of Some (Str s) \<Rightarrow> s | _ \<Rightarrow> [])), c)"

definition registry_wrap :: "nat BlockContext" where
  "registry_wrap =
     add_blocks BlockContext_new
       [''wrap'' \<mapsto> BlockNode ''wrap'' 1, ''other'' \<mapsto> BlockNode ''other'' 2]"

definition ctx_wrap :: "(nat, unit) Context" where
  "ctx_wrap =
     \<lparr>dicts = Stack Map.empty [],
      render_context = Stack \<lparr>block_context = Some registry_wrap, widgets = None\<rparr> []\<rparr>"

definition nested_plain :: "(nat, unit) NestedWidget" where
  "nested_plain =
     \<lparr>widget = (\<lambda>c. Inr '':wrap''), kwargs = [(''title'', \<lambda>c. Inr (Str ''T''))], asvar = None,
      nodelist = (\<lambda>c. (Inr ''hello'', c))\<rparr>"

definition widget_as_title :: "(nat, unit) Widget" where
  "widget_as_title = \<lparr>widget = (\<lambda>c. Inr '':other''), kwargs = [], asvar = Some ''title''\<rparr>"

definition nested_assign :: "(nat, unit) NestedWidget" where
  "nested_assign =
     \<lparr>widget = (\<lambda>c. Inr '':wrap''), kwargs = [(''title'', \<lambda>c. Inr (Str ''T''))], asvar = None,
      nodelist = Widget_render repr_plain render_title widget_as_title\<rparr>"

section \<open>Automatic widget names: the seven candidates\<close>

text \<open>
  C7.  For a bound form field with widget class name \<open>w\<close>, field class name \<open>f\<close> and field
  name \<open>n\<close>, \<open>auto_widget\<close> returns exactly the seven names
  \<open>f_w_n\<close>, \<open>f_n\<close>, \<open>w_n\<close>, \<open>f_w\<close>, \<open>n\<close>, \<open>w\<close>, \<open>f\<close>, in this order.
\<close>

theorem auto_widget_candidates:
  "auto_widget field =
     Inr [field_class_name field @ ''_'' @ widget_class_name field @ ''_'' @ field_name field,
          field_class_name field @ ''_'' @ field_name field,
          widget_class_name field @ ''_'' @ field_name field,
          field_class_name field @ ''_'' @ widget_class_name field,
          field_name field,
          widget_class_name field,
          field_class_name field]"
  by (simp add: auto_widget_def)

theorem auto_widget_candidates_witness:
  "auto_widget \<lparr>widget_class_name = ''TextInput'', field_class_name = ''CharField'', field_name = ''email''\<rparr> =
     Inr [''CharField_TextInput_email'', ''CharField_email'', ''TextInput_email'',
          ''CharField_TextInput'', ''email'', ''TextInput'', ''CharField'']"
  using auto_widget_candidates
    [of "\<lparr>widget_class_name = ''TextInput'', field_class_name = ''CharField'', field_name = ''email''\<rparr>"]
  by simp

section \<open>Parsing a widget reference\<close>

lemma str_split1_no_sep: "sep \<notin> set s \<Longrightarrow> str_split1 sep s = [s]"
proof -
  assume "sep \<notin> set s"
  then have "dropWhile (\<lambda>c. c \<noteq> sep) s = []" by (auto simp: dropWhile_eq_Nil_conv)
  then show ?thesis unfolding str_split1_def by (simp only: list.case)
qed

lemma str_split1_sep:
  "sep \<in> set s \<Longrightarrow>
   \<exists>a b. str_split1 sep s = [a, b] \<and> s = a @ sep # b \<and> sep \<notin> set a"
proof -
  assume h: "sep \<in> set s"
  let ?a = "takeWhile (\<lambda>c. c \<noteq> sep) s" and ?d = "dropWhile (\<lambda>c. c \<noteq> sep) s"
  from h have ne: "?d \<noteq> []" by (auto simp: dropWhile_eq_Nil_conv)
  then obtain x b where d: "?d = x # b" by (cases ?d) auto
  have "x = sep" using hd_dropWhile [of "\<lambda>c. c \<noteq> sep" s] ne d by simp
  with d have d': "?d = sep # b" by simp
  have "s = ?a @ ?d" by simp
  with d' have s: "s = ?a @ sep # b" by simp
  have na: "sep \<notin> set ?a" using set_takeWhileD [of sep "\<lambda>c. c \<noteq> sep" s] by auto
  have "str_split1 sep s = [?a, b]" unfolding str_split1_def d' by (simp only: list.case)
  with s na show ?thesis by blast
qed

text \<open>
  C10.  A widget reference without a colon is a \<open>TemplateSyntaxError\<close>.  A reference with a
  colon is split at its first colon only: the alias is the text before it (possibly empty)
  and contains no colon, the block name is all the rest, further colons included.
\<close>

theorem parse_widget_name_first_colon:
  \<open>(CHR '':'' \<notin> set ref \<longrightarrow>
      parse_widget_name ref =
        Inl (TemplateSyntaxError (''widget name must be "alias:block_name" - '' @ ref))) \<and>
   (CHR '':'' \<in> set ref \<longrightarrow>
      (\<exists>alias block_name.
         parse_widget_name ref = Inr (alias, block_name) \<and>
         ref = alias @ CHR '':'' # block_name \<and>
         CHR '':'' \<notin> set alias))\<close>
proof (intro conjI impI)
  assume "CHR '':'' \<notin> set ref"
  then show \<open>parse_widget_name ref =
        Inl (TemplateSyntaxError (''widget name must be "alias:block_name" - '' @ ref))\<close>
    by (simp add: parse_widget_name_def str_split1_no_sep)
next
  assume "CHR '':'' \<in> set ref"
  from str_split1_sep [OF this] obtain a b where
    "str_split1 CHR '':'' ref = [a, b]" "ref = a @ CHR '':'' # b" "CHR '':'' \<notin> set a"
    by blast
  then show "\<exists>alias block_name.
         parse_widget_name ref = Inr (alias, block_name) \<and>
         ref = alias @ CHR '':'' # block_name \<and>
         CHR '':'' \<notin> set alias"
    by (simp add: parse_widget_name_def)
qed

theorem parse_widget_name_first_colon_witness:
  \<open>parse_widget_name ''form:a:b'' = Inr (''form'', ''a:b'') \<and>
   parse_widget_name '':sibling'' = Inr ([], ''sibling'') \<and>
   parse_widget_name ''plain'' =
     Inl (TemplateSyntaxError ''widget name must be "alias:block_name" - plain'')\<close>
  using parse_widget_name_first_colon [of "''form:a:b''"]
    parse_widget_name_first_colon [of "'':sibling''"]
    parse_widget_name_first_colon [of "''plain''"]
  by (simp add: parse_widget_name_def str_split1_def)

section \<open>The scope switcher\<close>

text \<open>
  C3.  With the empty alias the scope switcher runs the wrapped function on the context as
  it is, and its outcome is the function's outcome: nothing is pushed, nothing is looked up
  in the widget library table, so no missing table or alias can make it fail.
\<close>

theorem using_empty_alias: "using_cm repr context [] body = body context"
  by (simp add: using_cm_def)

theorem using_empty_alias_witness:
  "rc_get_widgets ctx_empty = None \<and> using_cm repr_plain ctx_empty [] ok_body = (Inr ''ok'', ctx_empty)"
  using using_empty_alias [of repr_plain ctx_empty ok_body]
  by (simp add: ok_body_def ctx_empty_def rc_get_widgets_def empty_layer_def)

text \<open>
  C6 (as the code has it).  For a non-empty alias, the scope switcher raises
  \<open>TemplateSyntaxError('No widget libraries loaded!')\<close> when the current render-context layer
  has no widget library table, and \<open>TemplateSyntaxError\<close> with the message
  \<open>'No widget library loaded for alias: '\<close> followed by the \<open>repr\<close> of the alias when the
  table has no entry for it.  In both cases the wrapped function is not run and the context
  is returned unchanged: no layer is pushed.
\<close>

theorem using_unknown_library:
  assumes "alias \<noteq> []"
  shows "(rc_get_widgets context = None \<longrightarrow>
            using_cm repr context alias body =
              (Inl (TemplateSyntaxError ''No widget libraries loaded!''), context)) \<and>
         (\<forall>ws. rc_get_widgets context = Some ws \<and> ws alias = None \<longrightarrow>
            using_cm repr context alias body =
              (Inl (TemplateSyntaxError (''No widget library loaded for alias: '' @ repr alias)),
               context))"
  using assms by (simp add: using_cm_def)

theorem using_unknown_library_witness:
  "''zzz'' \<noteq> [] \<and> rc_get_widgets ctx_empty = None \<and>
   map_option (\<lambda>ws. ws ''zzz'') (rc_get_widgets ctx_loaded) = Some None \<and>
   using_cm repr_plain ctx_empty ''zzz'' ok_body =
     (Inl (TemplateSyntaxError ''No widget libraries loaded!''), ctx_empty) \<and>
   using_cm repr_plain ctx_loaded ''zzz'' ok_body =
     (Inl (TemplateSyntaxError (''No widget library loaded for alias: '' @ repr_plain ''zzz'')),
      ctx_loaded)"
  using using_unknown_library [of "''zzz''" ctx_empty repr_plain ok_body]
    using_unknown_library [of "''zzz''" ctx_loaded repr_plain ok_body]
  by (simp add: ctx_empty_def ctx_loaded_def rc_get_widgets_def empty_layer_def repr_plain_def)

text \<open>
  C6 as stated fails: with no table, the exception for alias \<open>zzz\<close> is not of a class
  \<open>ConfigurationError\<close>, and its message is not \<open>no widget libraries loaded\<close>.
\<close>

theorem using_unknown_library_counterexample:
  "\<not> raises ''ConfigurationError'' (fst (using_cm repr_plain ctx_empty ''zzz'' ok_body)) \<and>
   fst (using_cm repr_plain ctx_empty ''zzz'' ok_body) \<noteq>
     Inl (TemplateSyntaxError ''no widget libraries loaded'')"
  by (simp add: using_cm_def ctx_empty_def rc_get_widgets_def empty_layer_def)

section \<open>Block lookup\<close>

lemma find_block_loop_map_filter:
  "find_block_loop block_set names =
     (case List.map_filter (get_block block_set) names of [] \<Rightarrow> None | block # _ \<Rightarrow> Some block)"
  by (induction names) (auto simp: List.map_filter_simps split: option.splits)

lemma find_block_loop_None:
  "find_block_loop block_set names = None \<longleftrightarrow> (\<forall>nm \<in> set names. get_block block_set nm = None)"
  by (induction names) (auto split: option.splits)

lemma find_block_loop_prefix:
  "(\<forall>p \<in> set pre. get_block block_set p = None) \<Longrightarrow> get_block block_set nm = Some block \<Longrightarrow>
   find_block_loop block_set (pre @ nm # post) = Some block"
  by (induction pre) auto

text \<open>
  C5 (as the code has it).  When a block registry is active, \<open>find_block\<close> returns the first
  definition that the candidates find there, trying them in the order given: the result is
  the head of the list of successful lookups, and a candidate whose predecessors all miss
  is the one returned.  It raises \<open>TemplateSyntaxError\<close> with the message
  \<open>'No widget found for: '\<close> followed by the \<open>repr\<close> of the tuple of candidates if and only
  if no candidate matches.
\<close>

theorem find_block_first_match:
  assumes "rc_get_blocks context = Some block_set"
  shows "find_block repr context names =
           (case List.map_filter (get_block block_set) names of
              [] \<Rightarrow> Inl (TemplateSyntaxError (''No widget found for: '' @ repr_tuple repr names))
            | block # _ \<Rightarrow> Inr block) \<and>
         ((\<forall>nm \<in> set names. get_block block_set nm = None) \<longleftrightarrow>
            find_block repr context names =
              Inl (TemplateSyntaxError (''No widget found for: '' @ repr_tuple repr names))) \<and>
         (\<forall>pre nm post block.
            names = pre @ nm # post \<and> (\<forall>p \<in> set pre. get_block block_set p = None) \<and>
            get_block block_set nm = Some block \<longrightarrow>
            find_block repr context names = Inr block)"
proof (intro conjI allI impI)
  show "find_block repr context names =
           (case List.map_filter (get_block block_set) names of
              [] \<Rightarrow> Inl (TemplateSyntaxError (''No widget found for: '' @ repr_tuple repr names))
            | block # _ \<Rightarrow> Inr block)"
    using assms by (simp add: find_block_def find_block_loop_map_filter split: list.splits)
next
  show "(\<forall>nm \<in> set names. get_block block_set nm = None) \<longleftrightarrow>
            find_block repr context names =
              Inl (TemplateSyntaxError (''No widget found for: '' @ repr_tuple repr names))"
    using assms find_block_loop_None [of block_set names]
    by (auto simp: find_block_def split: option.splits)
next
  fix pre nm post block
  assume h: "names = pre @ nm # post \<and> (\<forall>p \<in> set pre. get_block block_set p = None) \<and>
            get_block block_set nm = Some block"
  have "find_block_loop block_set (pre @ nm # post) = Some block"
    using h by (simp add: find_block_loop_prefix)
  with h assms show "find_block repr context names = Inr block"
    by (simp add: find_block_def)
qed

theorem find_block_first_match_witness:
  "rc_get_blocks ctx_form = Some registry_form \<and>
   find_block repr_plain ctx_form
     [''CharField_TextInput_email'', ''CharField_email'', ''TextInput_email'',
      ''CharField_TextInput'', ''email'', ''TextInput'', ''CharField''] =
     Inr (BlockNode ''email'' 1) \<and>
   find_block repr_plain ctx_form [''a'', ''b''] =
     Inl (TemplateSyntaxError (''No widget found for: ('' @ repr_plain ''a'' @ '', '' @ repr_plain ''b'' @ '')''))"
proof -
  have h: "rc_get_blocks ctx_form = Some registry_form"
    by (simp add: rc_get_blocks_def ctx_form_def)
  show ?thesis
    using h find_block_first_match [OF h, of repr_plain
      "[''CharField_TextInput_email'', ''CharField_email'', ''TextInput_email'',
      ''CharField_TextInput'', ''email'', ''TextInput'', ''CharField'']"]
      find_block_first_match [OF h, of repr_plain "[''a'', ''b'']"]
    by (simp add: repr_tuple_def List.map_filter_simps get_block_def registry_form_def
          add_blocks_def BlockContext_new_def)
qed

text \<open>
  C5 as stated fails: when no candidate matches, the exception raised is not of class
  \<open>LookupError\<close>; and when no registry is active at all, the exception is the \<open>KeyError\<close>
  of the missing registry, without the message about the candidates.
\<close>

theorem find_block_first_match_counterexample:
  "get_block registry_form ''a'' = None \<and> get_block registry_form ''b'' = None \<and>
   rc_get_blocks ctx_form = Some registry_form \<and>
   \<not> raises ''LookupError'' (find_block repr_plain ctx_form [''a'', ''b'']) \<and>
   rc_get_blocks ctx_empty = None \<and>
   find_block repr_plain ctx_empty [''a'', ''b''] = Inl (KeyError ''block_context'')"
  by (simp add: find_block_def rc_get_blocks_def ctx_form_def get_block_def registry_form_def
        add_blocks_def BlockContext_new_def ctx_empty_def empty_layer_def BLOCK_CONTEXT_KEY_def)

section \<open>An exception inside an activated scope\<close>

lemma widget_boom_result:
  "Widget_render repr_plain render_raises widget_boom ctx_loaded =
     (Inl (HostError ''boom''),
      ctx_loaded\<lparr>render_context :=
        Stack \<lparr>block_context = Some registry_p, widgets = Some [''p'' \<mapsto> registry_p]\<rparr>
              [current (render_context ctx_loaded)]\<rparr>)"
proof -
  have f: "find_block repr_plain
             (ctx_loaded\<lparr>render_context :=
                Stack \<lparr>block_context = Some registry_p, widgets = Some [''p'' \<mapsto> registry_p]\<rparr>
                      [current (render_context ctx_loaded)]\<rparr>) [''boom''] =
           Inr (BlockNode ''boom'' 0)"
    by (simp add: find_block_def rc_get_blocks_def get_block_def registry_p_def add_blocks_def
          BlockContext_new_def)
  have e: "rc_set_widgets [''p'' \<mapsto> registry_p]
             (rc_set_blocks registry_p (rc_push empty_layer ctx_loaded)) =
           ctx_loaded\<lparr>render_context :=
                Stack \<lparr>block_context = Some registry_p, widgets = Some [''p'' \<mapsto> registry_p]\<rparr>
                      [current (render_context ctx_loaded)]\<rparr>"
    by (simp add: rc_set_widgets_def rc_set_blocks_def rc_push_def push_def empty_layer_def
          ctx_loaded_def)
  have g: "rc_get_widgets ctx_loaded = Some [''p'' \<mapsto> registry_p]"
    by (simp add: rc_get_widgets_def ctx_loaded_def)
  have p: "parse_widget_name ''p:boom'' = Inr (''p'', ''boom'')"
    by (simp add: parse_widget_name_def str_split1_def)
  show ?thesis
    by (simp add: Widget_render_def widget_boom_def p using_cm_def g e Widget_body_def f
          with_update_def render_raises_def push_def pop_def)
qed

text \<open>
  C1.  The claim is that an exception raised inside an activated scope leaves the render
  context as it was before activation.  The code does not do so: rendering
  \<open>{% widget 'p:boom' %}\<close> with a block that raises returns the exception with the layer
  pushed by \<open>using\<close> still on the stack, above the layer that was current before, and with
  the registry of alias \<open>p\<close> still the active one.
\<close>

theorem using_leaks_layer_on_exception:
  "fst (Widget_render repr_plain render_raises widget_boom ctx_loaded) = Inl (HostError ''boom'') \<and>
   outer (render_context (snd (Widget_render repr_plain render_raises widget_boom ctx_loaded))) =
     [current (render_context ctx_loaded)] \<and>
   outer (render_context ctx_loaded) = [] \<and>
   rc_get_blocks (snd (Widget_render repr_plain render_raises widget_boom ctx_loaded)) =
     Some registry_p \<and>
   rc_get_blocks ctx_loaded = Some BlockContext_new \<and>
   get_block registry_p ''boom'' = Some (BlockNode ''boom'' 0) \<and>
   get_block BlockContext_new ''boom'' = None"
proof (intro conjI)
  show "outer (render_context ctx_loaded) = []" by (simp add: ctx_loaded_def)
  show "rc_get_blocks ctx_loaded = Some BlockContext_new"
    by (simp add: rc_get_blocks_def ctx_loaded_def)
  show "get_block registry_p ''boom'' = Some (BlockNode ''boom'' 0)"
    by (simp add: get_block_def registry_p_def add_blocks_def BlockContext_new_def)
  show "get_block BlockContext_new ''boom'' = None"
    by (simp add: get_block_def BlockContext_new_def)
qed (simp_all add: widget_boom_result rc_get_blocks_def)

section \<open>Resolving an inheritance chain\<close>

lemma rc_get_set_blocks [simp]: "rc_get_blocks (rc_set_blocks b c) = Some b"
  by (simp add: rc_get_blocks_def rc_set_blocks_def)

lemma rc_set_set_blocks [simp]: "rc_set_blocks b (rc_set_blocks b' c) = rc_set_blocks b c"
  by (simp add: rc_set_blocks_def)

lemma active_or_new_set [simp]: "active_or_new (rc_set_blocks b c) = b"
  by (simp add: active_or_new_def)

lemma ensure_blocks_eq: "ensure_blocks c = (active_or_new c, rc_set_blocks (active_or_new c) c)"
  by (cases c; cases "render_context c")
     (simp add: ensure_blocks_def active_or_new_def rc_set_blocks_def rc_get_blocks_def
        split: option.splits)

lemma resolve_blocks_template_eq:
  "resolve_blocks_template t c =
     ((case chain_error t of
         None \<Rightarrow> Inr (foldl add_blocks (active_or_new c) (chain_layers t))
       | Some e \<Rightarrow> Inl e),
      rc_set_blocks (foldl add_blocks (active_or_new c) (chain_layers t)) c)"
proof (induction t c rule: resolve_blocks_template.induct)
  case (1 bnodes extends ctx)
  show ?case
  proof (cases extends)
    case Nil
    then show ?thesis by (simp add: ensure_blocks_eq Let_def)
  next
    case (Cons x rest)
    show ?thesis
    proof (cases x)
      case (Inl e)
      with Cons show ?thesis by (simp add: ensure_blocks_eq Let_def)
    next
      case (Inr p)
      with Cons 1 show ?thesis
        by (simp add: ensure_blocks_eq Let_def split: option.splits)
    qed
  qed
qed

lemma foldl_add_blocks_at:
  "foldl add_blocks bc ls x = rev (List.map_filter (\<lambda>l. l x) ls) @ bc x"
  by (induction ls arbitrary: bc) (auto simp: add_blocks_def List.map_filter_simps split: option.splits)

lemma get_block_last:
  "get_block self nm = (if self nm = [] then None else Some (last (self nm)))"
  by (cases "self nm") (simp_all add: get_block_def)

lemma chain_layers_hd: "\<exists>ls. chain_layers t = local_blocks t # ls"
  by (cases t) simp

lemma get_block_first_layer:
  assumes "l x = Some b" "get_block bc x = None"
  shows "get_block (foldl add_blocks bc (l # ls)) x = Some b"
proof -
  from assms(2) have "bc x = []" by (simp add: get_block_last split: if_splits)
  with assms(1) have "foldl add_blocks bc (l # ls) x = rev (List.map_filter (\<lambda>l. l x) ls) @ [b]"
    by (simp add: foldl_add_blocks_at List.map_filter_simps add_blocks_def)
  then show ?thesis by (simp add: get_block_last)
qed

text \<open>
  C2.  For a document \<open>A\<close> whose whole inheritance chain loads, of any depth, \<open>resolve_blocks\<close>
  returns the active registry with one layer added per document of the chain, the layers
  of \<open>chain_layers A\<close> in order, \<open>A\<close>'s own first.  A block name that \<open>A\<close> declares, and
  that the registry did not hold before, is then looked up to \<open>A\<close>'s definition, whatever
  the ancestors declare under that name.
\<close>

theorem resolve_blocks_most_specific_first:
  assumes "template = TemplateObject A \<or> (\<exists>nm. template = TemplateName nm \<and> get_template nm = Inr A)"
      and "chain_error A = None"
  shows "resolve_blocks get_template template context =
           (Inr (foldl add_blocks (active_or_new context) (chain_layers A)),
            rc_set_blocks (foldl add_blocks (active_or_new context) (chain_layers A)) context) \<and>
         (\<forall>x block. local_blocks A x = Some block \<and> get_block (active_or_new context) x = None \<longrightarrow>
            get_block (foldl add_blocks (active_or_new context) (chain_layers A)) x = Some block)"
proof
  from assms(1) have "(case template of TemplateName nm \<Rightarrow> get_template nm | TemplateObject t \<Rightarrow> Inr t) = Inr A"
    by auto
  then show "resolve_blocks get_template template context =
           (Inr (foldl add_blocks (active_or_new context) (chain_layers A)),
            rc_set_blocks (foldl add_blocks (active_or_new context) (chain_layers A)) context)"
    using assms(2) by (simp add: resolve_blocks_def ensure_blocks_eq resolve_blocks_template_eq)
next
  obtain ls where ls: "chain_layers A = local_blocks A # ls" using chain_layers_hd by blast
  show "\<forall>x block. local_blocks A x = Some block \<and> get_block (active_or_new context) x = None \<longrightarrow>
            get_block (foldl add_blocks (active_or_new context) (chain_layers A)) x = Some block"
    unfolding ls using get_block_first_layer by blast
qed

theorem resolve_blocks_most_specific_first_witness:
  "chain_error doc_A = None \<and>
   local_blocks doc_A ''x'' = Some (BlockNode ''x'' 1) \<and>
   local_blocks doc_C ''x'' = Some (BlockNode ''x'' 3) \<and>
   get_block (active_or_new ctx_empty) ''x'' = None \<and>
   map_sum id (\<lambda>r. (get_block r ''x'', get_block r ''y'', get_block r ''z''))
     (fst (resolve_blocks loader (TemplateObject doc_A) ctx_empty)) =
     Inr (Some (BlockNode ''x'' 1), Some (BlockNode ''y'' 30), Some (BlockNode ''z'' 2))"
proof -
  have a: "TemplateObject doc_A = TemplateObject doc_A \<or>
           (\<exists>nm. TemplateObject doc_A = TemplateName nm \<and> loader nm = Inr doc_A)" by simp
  have b: "chain_error doc_A = None" by (simp add: doc_A_def doc_B_def doc_C_def)
  show ?thesis
    using b resolve_blocks_most_specific_first [OF a b, of ctx_empty]
    by (simp add: doc_A_def doc_B_def doc_C_def local_blocks_def active_or_new_def
          rc_get_blocks_def ctx_empty_def empty_layer_def get_block_def BlockContext_new_def
          add_blocks_def)
qed

section \<open>Loading widget libraries\<close>

lemma rc_get_set_widgets [simp]: "rc_get_widgets (rc_set_widgets w c) = Some w"
  by (simp add: rc_get_widgets_def rc_set_widgets_def)

lemma load_widgets_loop_result:
  "load_widgets_loop soft kws ws c =
     ((if \<forall>(alias, template_name) \<in> set kws. soft \<and> ws alias \<noteq> None then Inr ()
       else Inl (AttributeError ''update'')), c)"
  by (induction kws) (force simp: rc_update_def)+

lemma load_widgets_result:
  "load_widgets c soft kws =
     (case rc_get_widgets c of
        None \<Rightarrow>
          ((if kws = [] then Inr [] else Inl (AttributeError ''update'')),
           rc_set_widgets Map.empty c)
      | Some ws \<Rightarrow>
          ((if \<forall>(alias, template_name) \<in> set kws. soft \<and> ws alias \<noteq> None then Inr []
            else Inl (AttributeError ''update'')), c))"
  by (cases kws) (auto simp: load_widgets_def load_widgets_loop_result split: option.splits)

text \<open>
  C4.  The claim is that a load resolves each document that is not skipped and stores its
  registry under the alias.  The code does not do so: \<open>{% load_widgets a='docX' %}\<close>, soft or
  not, raises \<open>AttributeError\<close> at \<open>context.render_context.update\<close>, although the document
  loads; the table it created stays empty, so a later soft load of \<open>a\<close> from another document
  is not skipped either and raises the same way.  No alias is ever bound.
\<close>

theorem load_widgets_raises_attribute_error:
  "load_widgets ctx_empty False [(''a'', TemplateName ''docX'')] =
     (Inl (AttributeError ''update''), rc_set_widgets Map.empty ctx_empty) \<and>
   load_widgets ctx_empty True [(''a'', TemplateName ''docX'')] =
     (Inl (AttributeError ''update''), rc_set_widgets Map.empty ctx_empty) \<and>
   load_widgets (rc_set_widgets Map.empty ctx_empty) True [(''a'', TemplateName ''docY'')] =
     (Inl (AttributeError ''update''), rc_set_widgets Map.empty ctx_empty) \<and>
   rc_get_widgets (rc_set_widgets Map.empty ctx_empty) = Some Map.empty \<and>
   loader ''docX'' = Inr doc_X \<and> loader ''docY'' = Inr doc_Y"
  by (simp add: load_widgets_def rc_update_def ctx_empty_def empty_layer_def
        rc_get_widgets_def rc_set_widgets_def loader_def)

section \<open>Reuse\<close>

lemma get_block_new [simp]: "get_block BlockContext_new nm = None"
  by (simp add: get_block_def BlockContext_new_def)

lemma reuse_loop_map_filter:
  "reuse_loop blocks names =
     (case List.map_filter (get_block blocks) names of [] \<Rightarrow> None | block # _ \<Rightarrow> Some block)"
  by (induction names) (auto simp: List.map_filter_simps split: option.splits)

lemma reuse_loop_None:
  "(\<forall>nm \<in> set names. get_block blocks nm = None) \<Longrightarrow> reuse_loop blocks names = None"
  by (induction names) auto

lemma ctx_get_override:
  "d key = Some v \<Longrightarrow> ctx_get (override_scope d c) key = Some v"
  by (simp add: ctx_get_def override_scope_def push_def)

lemma ctx_get_override_other:
  "d key = None \<Longrightarrow> ctx_get (override_scope d c) key = ctx_get c key"
  by (simp add: ctx_get_def override_scope_def push_def)

lemma with_update_scope:
  "with_update d body c =
     (case body (override_scope d c) of
        (r, c') \<Rightarrow> (case pop (dicts c') of Inl e \<Rightarrow> (Inl e, c') | Inr s \<Rightarrow> (r, c'\<lparr>dicts := s\<rparr>)))"
  by (simp add: with_update_def override_scope_def)

text \<open>
  C8.  \<open>reuse\<close> looks the candidates up in the registry of the current render-context
  layer only (or in an empty one when none is active), and renders the first match in the
  context with the overrides pushed as one layer, in which every override is visible.
  When no candidate matches, and in particular when no registry is active, it returns the
  empty string and the context unchanged; the lookup itself never raises.
\<close>

theorem reuse_active_registry:
  "reuse render context block_list kw =
     (case List.map_filter (get_block (active_or_new context)) (names_of block_list) of
        [] \<Rightarrow> (Inr [], context)
      | block # _ \<Rightarrow>
          (case render block (override_scope kw context) of
             (r, c) \<Rightarrow>
               (case pop (dicts c) of Inl e \<Rightarrow> (Inl e, c) | Inr s \<Rightarrow> (r, c\<lparr>dicts := s\<rparr>)))) \<and>
   (\<forall>key v. kw key = Some v \<longrightarrow> ctx_get (override_scope kw context) key = Some v) \<and>
   ((\<forall>nm \<in> set (names_of block_list). get_block (active_or_new context) nm = None) \<longrightarrow>
      reuse render context block_list kw = (Inr [], context)) \<and>
   (rc_get_blocks context = None \<longrightarrow> reuse render context block_list kw = (Inr [], context))"
proof (intro conjI allI impI)
  show "reuse render context block_list kw =
     (case List.map_filter (get_block (active_or_new context)) (names_of block_list) of
        [] \<Rightarrow> (Inr [], context)
      | block # _ \<Rightarrow>
          (case render block (override_scope kw context) of
             (r, c) \<Rightarrow>
               (case pop (dicts c) of Inl e \<Rightarrow> (Inl e, c) | Inr s \<Rightarrow> (r, c\<lparr>dicts := s\<rparr>))))"
    by (simp add: reuse_def Let_def active_or_new_def names_of_def reuse_loop_map_filter
          with_update_scope split: list.splits option.splits)
next
  fix key v assume "kw key = Some v"
  then show "ctx_get (override_scope kw context) key = Some v" by (rule ctx_get_override)
next
  assume "\<forall>nm \<in> set (names_of block_list). get_block (active_or_new context) nm = None"
  then have "reuse_loop (active_or_new context) (names_of block_list) = None"
    by (rule reuse_loop_None)
  then show "reuse render context block_list kw = (Inr [], context)"
    by (simp add: reuse_def Let_def active_or_new_def names_of_def)
next
  assume "rc_get_blocks context = None"
  then have "reuse_loop (active_or_new context) (names_of block_list) = None"
    by (simp add: reuse_loop_None active_or_new_def)
  then show "reuse render context block_list kw = (Inr [], context)"
    by (simp add: reuse_def Let_def active_or_new_def names_of_def)
qed

theorem reuse_active_registry_witness:
  "rc_get_blocks ctx_empty = None \<and>
   reuse render_title ctx_empty (NameList [''wrap'', ''other'']) [''title'' \<mapsto> Str ''T''] =
     (Inr [], ctx_empty) \<and>
   reuse render_title ctx_wrap (NameList [''missing'', ''other'', ''wrap'']) [''title'' \<mapsto> Str ''T''] =
     (Inr ''other:T'', ctx_wrap) \<and>
   reuse render_title ctx_wrap (OneName ''missing'') [''title'' \<mapsto> Str ''T''] = (Inr [], ctx_wrap)"
  using reuse_active_registry [of render_title ctx_empty "NameList [''wrap'', ''other'']" "[''title'' \<mapsto> Str ''T'']"]
    reuse_active_registry [of render_title ctx_wrap "NameList [''missing'', ''other'', ''wrap'']" "[''title'' \<mapsto> Str ''T'']"]
    reuse_active_registry [of render_title ctx_wrap "OneName ''missing''" "[''title'' \<mapsto> Str ''T'']"]
  by (simp add: ctx_empty_def ctx_wrap_def rc_get_blocks_def empty_layer_def active_or_new_def
        names_of_def List.map_filter_simps get_block_def registry_wrap_def add_blocks_def
        BlockContext_new_def render_title_def override_scope_def push_def pop_def ctx_get_def)

section \<open>Nested widgets\<close>

text \<open>
  C9 (as the code has it).  With the block found, the keyword arguments resolved to \<open>kw\<close>
  and the nested body rendered to \<open>content\<close>: the nested body is rendered in the scope with
  \<open>kw\<close> pushed, where every override is visible; the block is rendered in the scope the
  nested body left, with one more layer that binds \<open>content\<close> and nothing else, so the block
  reads \<open>content\<close> as the rendered body and every other variable as the nested body left it.
  If the nested body left the scope as it found it, the block reads every override as the
  caller gave it.
\<close>

theorem nested_widget_content:
  assumes "find_block repr c0 [block_name] = Inr block"
      and "resolve_kwargs (kwargs self) c0 Map.empty = Inr kw"
      and "nodelist self (override_scope kw c0) = (Inr content, c1)"
  shows "NestedWidget_body repr render self block_name c0 =
           (case (case (case render block (override_scope [''content'' \<mapsto> Str content] c1) of
                          (r, c) \<Rightarrow>
                            (case pop (dicts c) of
                               Inl e \<Rightarrow> (Inl e, c)
                             | Inr s \<Rightarrow> (r, c\<lparr>dicts := s\<rparr>))) of
                    (r, c) \<Rightarrow>
                      (case pop (dicts c) of
                         Inl e \<Rightarrow> (Inl e, c)
                       | Inr s \<Rightarrow> (r, c\<lparr>dicts := s\<rparr>))) of
              (Inl e, c) \<Rightarrow> (Inl e, c)
            | (Inr result, c) \<Rightarrow> store_asvar (asvar self) result c) \<and>
         (\<forall>key v. kw key = Some v \<longrightarrow> ctx_get (override_scope kw c0) key = Some v) \<and>
         ctx_get (override_scope [''content'' \<mapsto> Str content] c1) ''content'' = Some (Str content) \<and>
         (\<forall>key. key \<noteq> ''content'' \<longrightarrow>
            ctx_get (override_scope [''content'' \<mapsto> Str content] c1) key = ctx_get c1 key) \<and>
         (c1 = override_scope kw c0 \<longrightarrow>
            (\<forall>key v. key \<noteq> ''content'' \<and> kw key = Some v \<longrightarrow>
               ctx_get (override_scope [''content'' \<mapsto> Str content] c1) key = Some v)) \<and>
         (\<forall>context ref alias.
            widget self context = Inr ref \<and> parse_widget_name ref = Inr (alias, block_name) \<longrightarrow>
            NestedWidget_render repr render self context =
              using_cm repr context alias (NestedWidget_body repr render self block_name))"
proof (intro conjI allI impI)
  have "with_update kw
          (\<lambda>context. case nodelist self context of
                        (Inl e, c) \<Rightarrow> (Inl e, c)
                      | (Inr content, c) \<Rightarrow>
                          with_update [''content'' \<mapsto> Str content] (render block) c) c0 =
        (case (case render block (override_scope [''content'' \<mapsto> Str content] c1) of
                          (r, c) \<Rightarrow>
                            (case pop (dicts c) of
                               Inl e \<Rightarrow> (Inl e, c)
                             | Inr s \<Rightarrow> (r, c\<lparr>dicts := s\<rparr>))) of
                    (r, c) \<Rightarrow>
                      (case pop (dicts c) of
                         Inl e \<Rightarrow> (Inl e, c)
                       | Inr s \<Rightarrow> (r, c\<lparr>dicts := s\<rparr>)))"
    using assms(3) by (simp add: with_update_scope)
  then show "NestedWidget_body repr render self block_name c0 =
           (case (case (case render block (override_scope [''content'' \<mapsto> Str content] c1) of
                          (r, c) \<Rightarrow>
                            (case pop (dicts c) of
                               Inl e \<Rightarrow> (Inl e, c)
                             | Inr s \<Rightarrow> (r, c\<lparr>dicts := s\<rparr>))) of
                    (r, c) \<Rightarrow>
                      (case pop (dicts c) of
                         Inl e \<Rightarrow> (Inl e, c)
                       | Inr s \<Rightarrow> (r, c\<lparr>dicts := s\<rparr>))) of
              (Inl e, c) \<Rightarrow> (Inl e, c)
            | (Inr result, c) \<Rightarrow> store_asvar (asvar self) result c)"
    using assms(1,2) by (simp add: NestedWidget_body_def)
next
  fix key v assume "kw key = Some v"
  then show "ctx_get (override_scope kw c0) key = Some v" by (rule ctx_get_override)
next
  show "ctx_get (override_scope [''content'' \<mapsto> Str content] c1) ''content'' = Some (Str content)"
    by (simp add: ctx_get_override)
next
  fix key :: string assume "key \<noteq> ''content''"
  then show "ctx_get (override_scope [''content'' \<mapsto> Str content] c1) key = ctx_get c1 key"
    by (simp add: ctx_get_override_other)
next
  fix key v assume "c1 = override_scope kw c0" and "key \<noteq> ''content'' \<and> kw key = Some v"
  then show "ctx_get (override_scope [''content'' \<mapsto> Str content] c1) key = Some v"
    by (simp add: ctx_get_override_other ctx_get_override)
next
  fix context' ref al
  assume "widget self context' = Inr ref \<and> parse_widget_name ref = Inr (al, block_name)"
  then show "NestedWidget_render repr render self context' =
              using_cm repr context' al (NestedWidget_body repr render self block_name)"
    by (simp add: NestedWidget_render_def)
qed

lemma find_wrap: "find_block repr_plain ctx_wrap [''wrap''] = Inr (BlockNode ''wrap'' 1)"
  by (simp add: find_block_def ctx_wrap_def rc_get_blocks_def get_block_def registry_wrap_def
        add_blocks_def BlockContext_new_def)

theorem nested_widget_content_witness:
  "find_block repr_plain ctx_wrap [''wrap''] = Inr (BlockNode ''wrap'' 1) \<and>
   resolve_kwargs (kwargs nested_plain) ctx_wrap Map.empty = Inr [''title'' \<mapsto> Str ''T''] \<and>
   nodelist nested_plain (override_scope [''title'' \<mapsto> Str ''T''] ctx_wrap) =
     (Inr ''hello'', override_scope [''title'' \<mapsto> Str ''T''] ctx_wrap) \<and>
   NestedWidget_body repr_plain render_title nested_plain ''wrap'' ctx_wrap = (Inr ''wrap:T'', ctx_wrap) \<and>
   NestedWidget_render repr_plain render_title nested_plain ctx_wrap = (Inr ''wrap:T'', ctx_wrap)"
proof -
  have k: "resolve_kwargs (kwargs nested_plain) ctx_wrap Map.empty = Inr [''title'' \<mapsto> Str ''T'']"
    by (simp add: nested_plain_def)
  have n: "nodelist nested_plain (override_scope [''title'' \<mapsto> Str ''T''] ctx_wrap) =
     (Inr ''hello'', override_scope [''title'' \<mapsto> Str ''T''] ctx_wrap)"
    by (simp add: nested_plain_def)
  have w: "widget nested_plain ctx_wrap = Inr '':wrap'' \<and> parse_widget_name '':wrap'' = Inr ([], ''wrap'')"
    by (simp add: nested_plain_def parse_widget_name_def str_split1_def)
  note t = nested_widget_content [OF find_wrap k n, of render_title]
  from t have b: "NestedWidget_body repr_plain render_title nested_plain ''wrap'' ctx_wrap = (Inr ''wrap:T'', ctx_wrap)"
    by (simp add: render_title_def override_scope_def push_def pop_def ctx_get_def ctx_wrap_def
          nested_plain_def store_asvar_def)
  from t w have "NestedWidget_render repr_plain render_title nested_plain ctx_wrap =
      using_cm repr_plain ctx_wrap [] (NestedWidget_body repr_plain render_title nested_plain ''wrap'')"
    by blast
  with b have "NestedWidget_render repr_plain render_title nested_plain ctx_wrap = (Inr ''wrap:T'', ctx_wrap)"
    by (simp add: using_cm_def)
  with find_wrap k n b show ?thesis by simp
qed

text \<open>
  C9 as stated fails: two nested widgets that differ in their nested body only, rendered
  with a block that prints the override \<open>title\<close>.  With a body of plain text the block reads
  the override the caller gave; with the body \<open>{% widget ':other' as title %}\<close> the block
  reads the value the nested body stored.
\<close>

theorem nested_widget_content_counterexample:
  "widget nested_assign = widget nested_plain \<and>
   kwargs nested_assign = kwargs nested_plain \<and>
   asvar nested_assign = asvar nested_plain \<and>
   nodelist nested_assign = Widget_render repr_plain render_title widget_as_title \<and>
   fst (NestedWidget_render repr_plain render_title nested_plain ctx_wrap) = Inr ''wrap:T'' \<and>
   fst (NestedWidget_render repr_plain render_title nested_assign ctx_wrap) = Inr ''wrap:other:T''"
  by (simp add: nested_assign_def nested_plain_def NestedWidget_render_def parse_widget_name_def
        str_split1_def using_cm_def NestedWidget_body_def find_block_def ctx_wrap_def
        rc_get_blocks_def get_block_def registry_wrap_def add_blocks_def BlockContext_new_def
        with_update_def push_def pop_def render_title_def ctx_get_def store_asvar_def
        Widget_render_def Widget_body_def widget_as_title_def ctx_set_def)

end
